theory Spec2Isabelle
  imports Complex_Main
begin

section \<open>The simulated robot of \<^verbatim>\<open>plumes/src/simulation_agent.py\<close>\<close>

text \<open>
  The class \<^verbatim>\<open>Robot\<close> keeps a Gaussian-process belief, chooses a trajectory at each
  planning iteration, samples the environment along it and folds the samples into the
  belief. The libraries it calls (\<^verbatim>\<open>gpmodel_library\<close>, \<^verbatim>\<open>heuristic_rewards\<close>,
  \<^verbatim>\<open>generate_actions\<close>, \<^verbatim>\<open>mcts_search\<close>, \<^verbatim>\<open>mission_logger\<close>) are not part of the
  sources; what they compute is a parameter of the model (the record \<open>env\<close>), and what
  the robot does with their results is modelled line by line.
\<close>

subsection \<open>Python values\<close>

text \<open>
  A Python float is either not-a-number or a number. Only the order of the numbers
  matters below, so the numbers are reals (rounding and the two infinities are left
  out). Comparisons with not-a-number are false,
  as in Python (\<^verbatim>\<open>nan > x\<close>, \<^verbatim>\<open>x > nan\<close> and \<^verbatim>\<open>nan == nan\<close> are all \<^verbatim>\<open>False\<close>).
\<close>

datatype pyfloat = NaN | Num real

fun py_gt :: "pyfloat \<Rightarrow> pyfloat \<Rightarrow> bool" where
  "py_gt (Num a) (Num b) = (a > b)"
| "py_gt _ _ = False"

fun py_le :: "pyfloat \<Rightarrow> pyfloat \<Rightarrow> bool" where
  "py_le (Num a) (Num b) = (a \<le> b)"
| "py_le _ _ = False"

fun py_eq :: "pyfloat \<Rightarrow> pyfloat \<Rightarrow> bool" where
  "py_eq (Num a) (Num b) = (a = b)"
| "py_eq _ _ = False"

datatype error = ValueError | IndexError | UnboundLocalError | TypeError

text \<open>A row of an \<open>N \<times> d\<close> array is a point; the array is the list of its rows.\<close>

type_synonym point = "real list"
type_synonym path = "point list"

subsection \<open>numpy and random\<close>

text \<open>
  \<^verbatim>\<open>np.nanmax\<close> ignores not-a-number entries; when every entry is not-a-number it
  returns not-a-number (with a \<^verbatim>\<open>RuntimeWarning\<close> of the \<^verbatim>\<open>warnings\<close> module, which is
  no exception and no record of a logger); on an empty sequence it raises
  \<^verbatim>\<open>ValueError\<close>.
\<close>

fun nums :: "pyfloat list \<Rightarrow> real list" where
  "nums [] = []"
| "nums (NaN # vs) = nums vs"
| "nums (Num x # vs) = x # nums vs"

definition nanmax :: "pyfloat list \<Rightarrow> error + pyfloat" where
  "nanmax vs =
     (if vs = [] then Inl ValueError
      else case nums vs of
             [] \<Rightarrow> Inr NaN
           | x # xs \<Rightarrow> Inr (Num (fold max xs x)))"

text \<open>
  \<^verbatim>\<open>random.choice(seq)\<close> is \<^verbatim>\<open>seq[int(self.random() * len(seq))]\<close>: it draws one number
  \<open>u\<close> from \<open>[0, 1)\<close> first and indexes afterwards, so on an empty sequence the draw
  is consumed and the indexing raises \<^verbatim>\<open>IndexError\<close>. The draw is an argument here.
\<close>

definition random_choice :: "real \<Rightarrow> 'a list \<Rightarrow> error + 'a" where
  "random_choice u seq =
     (let i = nat \<lfloor>u * real (length seq)\<rfloor>
      in if i < length seq then Inr (seq ! i) else Inl IndexError)"

subsection \<open>The belief model\<close>

text \<open>
  The robot reads two attributes of its belief, \<^verbatim>\<open>xvals\<close> and \<^verbatim>\<open>zvals\<close> (\<^verbatim>\<open>None\<close> or
  an array), and calls its methods. Observed values are \<open>N \<times> 1\<close> arrays, of which the
  code reads column 0 only; they are modelled as the list of that column. The field
  \<open>calls\<close> records every method call made on the belief, in order.
\<close>

datatype gp_call =
    Train_kernel path "pyfloat list" "string option"
  | Load_kernel
  | Add_data path "pyfloat list"
  | Predict_value path

record belief =
  xvals :: "path option"
  zvals :: "pyfloat list option"
  calls :: "gp_call list"

text \<open>
  Modelled from the spec: \<^verbatim>\<open>OnlineGPModel.add_data\<close> of \<^verbatim>\<open>gpmodel_library\<close>, which is
  not among the sources. The spec gives the interface \<^verbatim>\<open>add_data(locations, values)\<close>:
  a batch of observations is folded into the accumulated locations and values, which the
  belief exposes for inspection.
\<close>

definition add_data :: "belief \<Rightarrow> path \<Rightarrow> pyfloat list \<Rightarrow> belief" where
  "add_data gp xs zs =
     gp\<lparr>xvals := Some ((case xvals gp of None \<Rightarrow> [] | Some old \<Rightarrow> old) @ xs),
        zvals := Some ((case zvals gp of None \<Rightarrow> [] | Some old \<Rightarrow> old) @ zs),
        calls := calls gp @ [Add_data xs zs]\<rparr>"

text \<open>
  Modelled from the spec: \<^verbatim>\<open>OnlineGPModel.train_kernel\<close> of \<^verbatim>\<open>gpmodel_library\<close>, which
  is not among the sources. By the spec it fits the kernel's hyperparameters to a dataset
  and adds no observation. The fitted values are not modelled: the predictor, a
  parameter, sees the call in \<open>calls\<close>.
\<close>

definition train_kernel :: "belief \<Rightarrow> path \<Rightarrow> pyfloat list \<Rightarrow> string option \<Rightarrow> belief" where
  "train_kernel gp xs zs file = gp\<lparr>calls := calls gp @ [Train_kernel xs zs file]\<rparr>"

text \<open>
  Modelled from the spec: \<^verbatim>\<open>OnlineGPModel.load_kernel\<close> of \<^verbatim>\<open>gpmodel_library\<close>, which
  is not among the sources. By the spec it loads a serialized kernel and adds no
  observation.
\<close>

definition load_kernel :: "belief \<Rightarrow> belief" where
  "load_kernel gp = gp\<lparr>calls := calls gp @ [Load_kernel]\<rparr>"

subsection \<open>Configuration, collaborators and the robot's state\<close>

datatype aq_fun = mean_UCB | info_gain | mves | exp_improvement | gumbel_mves

type_synonym target = "real list"

text \<open>
  The parameter handed to the acquisition function: \<^verbatim>\<open>None\<close>, the triple of the
  max-value entropy search, a list of maxima, the sampled maxima of the Gumbel variant,
  or (in the lookahead mode) the current maximum alone.
\<close>

datatype param =
    PNone
  | PTriple "pyfloat list option" "path option" "target option"
  | PList "pyfloat list"
  | PGumbel "pyfloat list"
  | PScalar pyfloat

text \<open>The keyword arguments of \<^verbatim>\<open>Robot.__init__\<close> that are data.\<close>

record kwargs =
  extent :: "real \<times> real \<times> real \<times> real"
  dimension :: int
  start_loc :: point
  start_time :: nat
  noise_kw :: real
  kernel_kw :: string
  init_lengthscale :: real
  init_variance :: real
  kernel_dataset :: "(path \<times> pyfloat list) option"
  prior_dataset :: "(path \<times> pyfloat list) option"
  kernel_file :: "string option"
  f_rew_kw :: string
  nonmyopic_kw :: bool

text \<open>
  The collaborators: the constructor of the belief (which may raise), the keyword
  arguments that are function handles or objects (\<^verbatim>\<open>sample_world\<close>,
  \<^verbatim>\<open>path_generator\<close>), the library functions, and the stream of numbers that
  \<^verbatim>\<open>random.random()\<close> returns.
\<close>

type_synonym selection = "path option \<times> pyfloat \<times> path list \<times> pyfloat list"

record env =
  OnlineGPModel :: "kwargs \<Rightarrow> error + belief"
  measure_environment :: "path \<Rightarrow> nat \<Rightarrow> pyfloat list"
  predict_value :: "belief \<Rightarrow> path \<Rightarrow> pyfloat list \<times> pyfloat list"
  generate_trajectories :: "point \<Rightarrow> nat \<Rightarrow> path list"
  aquisition :: "aq_fun \<Rightarrow> nat \<Rightarrow> path \<Rightarrow> belief \<Rightarrow> param \<Rightarrow> pyfloat"
  sample_max_vals :: "belief \<Rightarrow> nat \<Rightarrow> pyfloat list \<times> path \<times> target"
  sample_max_vals_gumbel :: "belief \<Rightarrow> nat \<Rightarrow> pyfloat list"
  mcts_choose_trajectory ::
    "belief \<Rightarrow> point \<Rightarrow> aq_fun \<Rightarrow> string \<Rightarrow> nat \<Rightarrow> param
       \<Rightarrow> selection \<times> path option \<times> pyfloat list option"
  random :: "nat \<Rightarrow> real"

text \<open>Records of the logger \<^verbatim>\<open>'robot'\<close> and of the evaluation object.\<close>

datatype log_level = DEBUG | INFO | WARNING | ERROR | CRITICAL

datatype log_message = Current_location nat point | Predicted_max point pyfloat

record metric =
  m_t :: nat
  m_loc :: point
  m_path :: "path option"
  m_value :: pyfloat
  m_max_loc :: point
  m_max_val :: pyfloat
  m_params :: "pyfloat \<times> point \<times> pyfloat list option \<times> path option"
  m_dist :: real

text \<open>
  The attributes of the robot that the planning code reads or writes. The last five
  fields are the state outside the object that the code changes: how many numbers the
  \<^verbatim>\<open>random\<close> module has handed out, the calls of the sampler (locations and time),
  the records of the logger, the calls of \<^verbatim>\<open>eval.update_metrics\<close>, and the rows that
  \<^verbatim>\<open>np.savetxt\<close> wrote at the end of the run.
\<close>

record robot =
  ranges :: "real \<times> real \<times> real \<times> real"
  dim :: int
  loc :: point
  time :: nat
  kernel :: string
  GP :: belief
  f_rew :: string
  aquisition_function :: aq_fun
  nonmyopic :: bool
  maxes :: "pyfloat list"
  current_max :: pyfloat
  current_max_loc :: point
  max_locs :: "path option"
  max_val :: "pyfloat list option"
  target :: "target option"
  trajectory :: "path list"
  dist :: real
  rng_pos :: nat
  sampled :: "(path \<times> nat) list"
  logged :: "(log_level \<times> log_message) list"
  metrics :: "metric list"
  exported :: "(real list \<times> real list \<times> pyfloat list) option"

subsection \<open>\<^verbatim>\<open>Robot.choose_trajectory\<close>\<close>

text \<open>
  Lines 143 to 153: the parameter of the acquisition function. Only the \<^verbatim>\<open>mes\<close>
  branch writes attributes.
\<close>

definition reward_param :: "env \<Rightarrow> robot \<Rightarrow> nat \<Rightarrow> param \<times> robot" where
  "reward_param E r t =
     (if f_rew r = ''mes'' then
        (case sample_max_vals E (GP r) t of
           (mv, ml, tg) \<Rightarrow>
             (PTriple (Some mv) (Some ml) (Some tg),
              r\<lparr>max_val := Some mv, max_locs := Some ml, target := Some tg\<rparr>))
      else if f_rew r = ''exp_improve'' then
        (if length (maxes r) = 0 then (PList [current_max r], r)
         else (PList (maxes r), r))
      else if f_rew r = ''gumbel'' then
        (PGumbel (sample_max_vals_gumbel E (GP r) t), r)
      else (PNone, r))"

text \<open>
  The dictionary \<^verbatim>\<open>value\<close> has the keys \<open>0, \<dots>, n - 1\<close>, one per action; it is the
  list of the scores, and \<^verbatim>\<open>value.keys()\<close> is \<open>[0..<n]\<close>. The keys that reach the
  maximum: the condition of the comprehension (and \<^verbatim>\<open>np.nanmax\<close> in it) is evaluated
  once per key, so not at all when there is no key.
\<close>

definition best_keys :: "pyfloat list \<Rightarrow> error + nat list" where
  "best_keys value =
     (if value = [] then Inr []
      else case nanmax value of
             Inl e \<Rightarrow> Inl e
           | Inr m \<Rightarrow> Inr (filter (\<lambda>key. py_eq (value ! key) m) [0..<length value]))"

text \<open>
  The \<^verbatim>\<open>try\<close> block draws once and picks among the best keys. Whatever it raises is
  caught by the bare \<^verbatim>\<open>except\<close>, which draws again and picks among all keys; what that
  raises is not caught.
\<close>

definition choose_trajectory ::
  "env \<Rightarrow> robot \<Rightarrow> nat \<Rightarrow> (error + path \<times> pyfloat \<times> path list \<times> pyfloat list) \<times> robot" where
  "choose_trajectory E r t =
     (case reward_param E r t of
        (param, r1) \<Rightarrow>
          (let actions = generate_trajectories E (loc r1) t;
               value = map (\<lambda>action. aquisition E (aquisition_function r1) t action (GP r1) param)
                         actions;
               u1 = random E (rng_pos r1);
               r2 = r1\<lparr>rng_pos := rng_pos r1 + 1\<rparr>;
               u2 = random E (rng_pos r2);
               r3 = r2\<lparr>rng_pos := rng_pos r2 + 1\<rparr>
           in (case (case best_keys value of
                       Inl e \<Rightarrow> Inl e
                     | Inr ks \<Rightarrow> random_choice u1 ks) of
                 Inr best_key \<Rightarrow>
                   (Inr (actions ! best_key, value ! best_key, actions, value), r2)
               | Inl _ \<Rightarrow>
                   (case random_choice u2 [0..<length value] of
                      Inr best_key \<Rightarrow>
                        (Inr (actions ! best_key, value ! best_key, actions, value), r3)
                    | Inl e \<Rightarrow> (Inl e, r3)))))"

subsection \<open>\<^verbatim>\<open>Robot.__init__\<close>\<close>

text \<open>Lines 92 to 104: the reward tag selects the acquisition function, or the constructor raises.\<close>

definition select_aquisition :: "string \<Rightarrow> error + aq_fun" where
  "select_aquisition f =
     (if f = ''mean'' then Inr mean_UCB
      else if f = ''info_gain'' then Inr info_gain
      else if f = ''mes'' then Inr mves
      else if f = ''exp_improve'' then Inr exp_improvement
      else if f = ''gumbel'' then Inr gumbel_mves
      else Inl ValueError)"

text \<open>Lines 71 to 85: where the kernel's hyperparameters come from.\<close>

definition resolve_kernel :: "kwargs \<Rightarrow> belief \<Rightarrow> belief" where
  "resolve_kernel kw gp =
     (if kernel_dataset kw \<noteq> None \<and> prior_dataset kw \<noteq> None \<and> kernel_kw kw = ''rbf'' then
        train_kernel gp
          (fst (the (prior_dataset kw)) @ fst (the (kernel_dataset kw)))
          (snd (the (prior_dataset kw)) @ snd (the (kernel_dataset kw)))
          (kernel_file kw)
      else if kernel_dataset kw \<noteq> None \<and> kernel_kw kw = ''rbf'' then
        train_kernel gp (fst (the (kernel_dataset kw))) (snd (the (kernel_dataset kw)))
          (kernel_file kw)
      else if kernel_file kw \<noteq> None then load_kernel gp
      else gp)"

text \<open>
  The constructor. The attributes \<^verbatim>\<open>trajectory\<close> and \<^verbatim>\<open>dist\<close> are first assigned by
  \<^verbatim>\<open>planner\<close>; a run starts with no number drawn, no record logged and nothing
  exported.
\<close>

definition robot_init :: "env \<Rightarrow> kwargs \<Rightarrow> error + robot" where
  "robot_init E kw =
     (case OnlineGPModel E kw of
        Inl e \<Rightarrow> Inl e
      | Inr gp0 \<Rightarrow>
          (let gp1 = resolve_kernel kw gp0;
               gp2 = (if prior_dataset kw \<noteq> None
                      then add_data gp1 (fst (the (prior_dataset kw))) (snd (the (prior_dataset kw)))
                      else gp1)
           in (case select_aquisition (f_rew_kw kw) of
                 Inl e \<Rightarrow> Inl e
               | Inr aq \<Rightarrow>
                   Inr \<lparr>ranges = extent kw, dim = dimension kw, loc = start_loc kw,
                        time = start_time kw, kernel = kernel_kw kw, GP = gp2,
                        f_rew = f_rew_kw kw, aquisition_function = aq,
                        nonmyopic = nonmyopic_kw kw, maxes = [], current_max = Num (- 1000),
                        current_max_loc = [0, 0], max_locs = None, max_val = None,
                        target = None, trajectory = [], dist = 0, rng_pos = 0, sampled = [],
                        logged = [], metrics = [], exported = None\<rparr>)))"

subsection \<open>\<^verbatim>\<open>Robot.collect_observations\<close>\<close>

text \<open>
  Lines 184 to 187: the loop over \<^verbatim>\<open>zip(zobs, xobs[1:,:])\<close>. The value is assigned
  before the location, whose two coordinates are read from the row.
\<close>

fun update_max :: "robot \<Rightarrow> (pyfloat \<times> point) list \<Rightarrow> error option \<times> robot" where
  "update_max r [] = (None, r)"
| "update_max r ((z, x) # rest) =
     (if py_gt z (current_max r) then
        (if 2 \<le> length x
         then update_max (r\<lparr>current_max := z, current_max_loc := [x ! 0, x ! 1]\<rparr>) rest
         else (Some IndexError, r\<lparr>current_max := z\<rparr>))
      else update_max r rest)"

text \<open>Lines 181 and 182 sample and store at \<^verbatim>\<open>xobs[:-1,:]\<close>, all rows but the last.\<close>

definition collect_observations :: "env \<Rightarrow> robot \<Rightarrow> path \<Rightarrow> error option \<times> robot" where
  "collect_observations E r xobs =
     (let zobs = measure_environment E (butlast xobs) (time r);
          r1 = r\<lparr>sampled := sampled r @ [(butlast xobs, time r)],
                 GP := add_data (GP r) (butlast xobs) zobs\<rparr>
      in update_max r1 (zip zobs (tl xobs)))"

subsection \<open>\<^verbatim>\<open>Robot.predict_max\<close>\<close>

text \<open>
  \<^verbatim>\<open>np.linspace(a, b, n)\<close> is \<open>a + i * (b - a) / (n - 1)\<close> for \<open>i < n\<close>.
  \<^verbatim>\<open>np.meshgrid\<close> with \<^verbatim>\<open>indexing = 'xy'\<close>, \<^verbatim>\<open>ravel\<close> and \<^verbatim>\<open>vstack(...).T\<close> give the
  points row by row: the second coordinate is fixed along a row of the mesh.
\<close>

definition linspace :: "real \<Rightarrow> real \<Rightarrow> nat \<Rightarrow> real list" where
  "linspace a b n = map (\<lambda>i. a + real i * ((b - a) / real (n - 1))) [0..<n]"

definition meshgrid_points :: "real list \<Rightarrow> real list \<Rightarrow> path" where
  "meshgrid_points x1vals x2vals = concat (map (\<lambda>x2. map (\<lambda>x1. [x1, x2]) x1vals) x2vals)"

text \<open>
  \<^verbatim>\<open>np.argmax\<close> keeps the first index of the largest entry and stops at the first
  not-a-number, which counts as largest; \<^verbatim>\<open>np.max\<close> returns not-a-number as soon as
  one entry is. Both raise \<^verbatim>\<open>ValueError\<close> on an empty array.
\<close>

fun argmax_loop :: "pyfloat \<Rightarrow> nat \<Rightarrow> nat \<Rightarrow> pyfloat list \<Rightarrow> nat" where
  "argmax_loop mp max_ind i [] = max_ind"
| "argmax_loop mp max_ind i (v # vs) =
     (if mp = NaN then max_ind
      else if \<not> py_le v mp then argmax_loop v i (Suc i) vs
      else argmax_loop mp max_ind (Suc i) vs)"

definition np_argmax :: "pyfloat list \<Rightarrow> error + nat" where
  "np_argmax vs = (case vs of [] \<Rightarrow> Inl ValueError | v # rest \<Rightarrow> Inr (argmax_loop v 0 1 rest))"

fun np_maximum :: "pyfloat \<Rightarrow> pyfloat \<Rightarrow> pyfloat" where
  "np_maximum (Num a) (Num b) = Num (max a b)"
| "np_maximum _ _ = NaN"

definition np_max :: "pyfloat list \<Rightarrow> error + pyfloat" where
  "np_max vs = (case vs of [] \<Rightarrow> Inl ValueError | v # rest \<Rightarrow> Inr (fold (\<lambda>x m. np_maximum m x) rest v))"

text \<open>
  Lines 195 to 202: the points at which the mean is predicted. With a dimension that
  is neither 2 nor 3 the name \<^verbatim>\<open>data\<close> is never assigned, and reading it on line 203
  raises \<^verbatim>\<open>UnboundLocalError\<close>.
\<close>

definition prediction_grid :: "robot \<Rightarrow> error + path" where
  "prediction_grid r =
     (case ranges r of
        (r0, r1, r2, r3) \<Rightarrow>
          (let x1vals = linspace r0 r1 30;
               x2vals = linspace r2 r3 30;
               mesh = meshgrid_points x1vals x2vals
           in if dim r = 2 then Inr mesh
              else if dim r = 3 then Inr (map (\<lambda>p. p @ [real (time r)]) mesh)
              else Inl UnboundLocalError))"

text \<open>
  Lines 191 to 205. The call of the predictor is recorded in the belief; the variance
  it returns is not used.
\<close>

definition predict_max :: "env \<Rightarrow> robot \<Rightarrow> (error + point \<times> pyfloat) \<times> robot" where
  "predict_max E r =
     (if xvals (GP r) = None then (Inr ([0, 0], Num 0), r)
      else
        (case prediction_grid r of
           Inl e \<Rightarrow> (Inl e, r)
         | Inr data \<Rightarrow>
             (let observations = fst (predict_value E (GP r) data);
                  r' = r\<lparr>GP := (GP r)\<lparr>calls := calls (GP r) @ [Predict_value data]\<rparr>\<rparr>
              in (case np_argmax observations of
                    Inl e \<Rightarrow> (Inl e, r')
                  | Inr i \<Rightarrow>
                      (if i < length data then
                         (case np_max observations of
                            Inl e \<Rightarrow> (Inl e, r')
                          | Inr m \<Rightarrow> (Inr (data ! i, m), r'))
                       else (Inl IndexError, r'))))))"

subsection \<open>\<^verbatim>\<open>Robot.planner\<close>\<close>

text \<open>
  \<^verbatim>\<open>np.array(sampling_path)[:, j]\<close>: column \<open>j\<close> of a two-dimensional array. An empty
  or ragged list of rows is no two-dimensional array, and indexing it so raises
  \<^verbatim>\<open>IndexError\<close>.
\<close>

definition column :: "path \<Rightarrow> nat \<Rightarrow> error + real list" where
  "column data j =
     (if data \<noteq> [] \<and> (\<forall>p \<in> set data. length p = length (hd data)) \<and> j < length (hd data)
      then Inr (map (\<lambda>p. p ! j) data)
      else Inl IndexError)"

text \<open>Lines 266 to 275: the observation locations of a path, by dimension.\<close>

definition observation_locations :: "int \<Rightarrow> nat \<Rightarrow> path \<Rightarrow> error + path" where
  "observation_locations d t sampling_path =
     (case column sampling_path 0 of
        Inl e \<Rightarrow> Inl e
      | Inr x1 \<Rightarrow>
          (case column sampling_path 1 of
             Inl e \<Rightarrow> Inl e
           | Inr x2 \<Rightarrow>
               (if d = 2 then Inr (map (\<lambda>(a, b). [a, b]) (zip x1 x2))
                else if d = 3 then Inr (map (\<lambda>(a, b). [a, b, real t]) (zip x1 x2))
                else Inl ValueError)))"

text \<open>Lines 283 to 286: the length of the path from the current location.\<close>

fun path_length :: "point \<Rightarrow> path \<Rightarrow> real" where
  "path_length start [] = 0"
| "path_length start (m # ms) =
     sqrt ((start ! 0 - m ! 0)\<^sup>2 + (start ! 1 - m ! 1)\<^sup>2) + path_length m ms"

text \<open>
  Lines 228 to 256: the selection, by the robot itself or by the tree search, which
  also returns the sampled maxima.
\<close>

definition select_trajectory :: "env \<Rightarrow> robot \<Rightarrow> nat \<Rightarrow> (error + selection) \<times> robot" where
  "select_trajectory E r t =
     (if \<not> nonmyopic r then
        (case choose_trajectory E r t of
           (Inl e, r') \<Rightarrow> (Inl e, r')
         | (Inr (sampling_path, best_val, all_paths, all_values), r') \<Rightarrow>
             (Inr (Some sampling_path, best_val, all_paths, all_values), r'))
      else
        (let param = (if f_rew r = ''exp_improve'' then PScalar (current_max r) else PNone)
         in (case mcts_choose_trajectory E (GP r) (loc r) (aquisition_function r) (f_rew r) t param of
               (sel, mlocs, mval) \<Rightarrow> (Inr sel, r\<lparr>max_locs := mlocs, max_val := mval\<rparr>))))"

datatype flow = Continue | Break

text \<open>
  Lines 266 to 295: the chosen trajectory is executed. The two plotting calls on every
  tenth iteration assign no attribute and are left out.
\<close>

definition execute_trajectory :: "env \<Rightarrow> nat \<Rightarrow> robot \<Rightarrow> path \<Rightarrow> (error + flow) \<times> robot" where
  "execute_trajectory E t r sampling_path =
     (case observation_locations (dim r) t sampling_path of
        Inl e \<Rightarrow> (Inl e, r)
      | Inr xlocs \<Rightarrow>
          (case collect_observations E r xlocs of
             (Some e, rf) \<Rightarrow> (Inl e, rf)
           | (None, rf) \<Rightarrow>
               (let rg = rf\<lparr>trajectory := trajectory rf @ [sampling_path]\<rparr>
                in if length (loc rg) < 2 then (Inl IndexError, rg)
                   else (Inr Continue,
                         rg\<lparr>dist := dist rg + path_length (loc rg) sampling_path,
                            loc := last sampling_path\<rparr>))))"

text \<open>
  One iteration of the loop (lines 218 to 295): the prediction, the selection, the
  metrics, and the execution unless no path was selected.
\<close>

definition planner_step :: "env \<Rightarrow> nat \<Rightarrow> robot \<Rightarrow> (error + flow) \<times> robot" where
  "planner_step E t r =
     (let ra = r\<lparr>time := t, logged := logged r @ [(INFO, Current_location t (loc r))]\<rparr>
      in (case predict_max E ra of
            (Inl e, rb) \<Rightarrow> (Inl e, rb)
          | (Inr (pred_loc, pred_val), rb) \<Rightarrow>
              (let rc = rb\<lparr>logged := logged rb @ [(INFO, Predicted_max pred_loc pred_val)]\<rparr>
               in (case select_trajectory E rc t of
                     (Inl e, rd) \<Rightarrow> (Inl e, rd)
                   | (Inr (sampling_path, best_val, all_paths, all_values), rd) \<Rightarrow>
                       (let re = rd\<lparr>metrics := metrics rd @
                                  [\<lparr>m_t = t, m_loc = loc rd, m_path = sampling_path,
                                    m_value = best_val, m_max_loc = pred_loc,
                                    m_max_val = pred_val,
                                    m_params = (current_max rd, current_max_loc rd,
                                                max_val rd, max_locs rd),
                                    m_dist = dist rd\<rparr>]\<rparr>
                        in (case sampling_path of
                              None \<Rightarrow> (Inr Break, re)
                            | Some sp \<Rightarrow> execute_trajectory E t re sp))))))"

fun planner_loop :: "env \<Rightarrow> nat list \<Rightarrow> robot \<Rightarrow> error option \<times> robot" where
  "planner_loop E [] r = (None, r)"
| "planner_loop E (t # ts) r =
     (case planner_step E t r of
        (Inl e, r') \<Rightarrow> (Some e, r')
      | (Inr Break, r') \<Rightarrow> (None, r')
      | (Inr Continue, r') \<Rightarrow> planner_loop E ts r')"

text \<open>
  Line 296: the export reads columns 0 and 1 of the belief's locations and column 0 of
  its values; on \<^verbatim>\<open>None\<close> the subscript raises \<^verbatim>\<open>TypeError\<close>.
\<close>

definition export_rows :: "belief \<Rightarrow> error + real list \<times> real list \<times> pyfloat list" where
  "export_rows gp =
     (case xvals gp of
        None \<Rightarrow> Inl TypeError
      | Some xs \<Rightarrow>
          (if \<forall>p \<in> set xs. 2 \<le> length p then
             (case zvals gp of
                None \<Rightarrow> Inl TypeError
              | Some zs \<Rightarrow> Inr (map (\<lambda>p. p ! 0) xs, map (\<lambda>p. p ! 1) xs, zs))
           else Inl IndexError))"

definition planner :: "env \<Rightarrow> robot \<Rightarrow> nat \<Rightarrow> error option \<times> robot" where
  "planner E r T =
     (case planner_loop E [0..<T] (r\<lparr>trajectory := [], dist := 0\<rparr>) of
        (Some e, r') \<Rightarrow> (Some e, r')
      | (None, r') \<Rightarrow>
          (case export_rows (GP r') of
             Inl e \<Rightarrow> (Some e, r')
           | Inr rows \<Rightarrow> (None, r'\<lparr>exported := Some rows\<rparr>)))"

subsection \<open>The size of the belief\<close>

text \<open>The number of observed values that the belief holds.\<close>

definition belief_size :: "belief \<Rightarrow> nat" where
  "belief_size gp = (case zvals gp of None \<Rightarrow> 0 | Some zs \<Rightarrow> length zs)"

subsection \<open>Concrete scenarios\<close>

text \<open>
  A belief with no observation, the configuration of the spec's scenarios (extent
  \<open>(0, 10, 0, 10)\<close>, starting pose \<open>(5, 5, 0)\<close>, no prior), three candidate paths, and
  collaborators that are simple enough to evaluate: the sampler returns the first
  coordinate, the predictor the constant 0, every random draw is \<open>1 / 2\<close>. The
  candidate generator and the scores are the parameters of a scenario.
\<close>

definition empty_belief :: belief where
  "empty_belief = \<lparr>xvals = None, zvals = None, calls = []\<rparr>"

definition scenario_kwargs :: kwargs where
  "scenario_kwargs =
     \<lparr>extent = (0, 10, 0, 10), dimension = 2, start_loc = [5, 5, 0], start_time = 0,
      noise_kw = 1, kernel_kw = ''rbf'', init_lengthscale = 1, init_variance = 100,
      kernel_dataset = None, prior_dataset = None, kernel_file = None,
      f_rew_kw = ''mean'', nonmyopic_kw = False\<rparr>"

definition scenario_actions :: "path list" where
  "scenario_actions = [[[5, 5], [6, 5]], [[5, 5], [5, 6]], [[5, 5], [4, 5]]]"

definition scenario_env :: "(nat \<Rightarrow> path list) \<Rightarrow> (path \<Rightarrow> pyfloat) \<Rightarrow> env" where
  "scenario_env gen score =
     \<lparr>OnlineGPModel = (\<lambda>kw. Inr empty_belief),
      measure_environment = (\<lambda>xs t. map (\<lambda>p. Num (p ! 0)) xs),
      predict_value = (\<lambda>gp data. (map (\<lambda>p. Num 0) data, map (\<lambda>p. Num 1) data)),
      generate_trajectories = (\<lambda>pose t. gen t),
      aquisition = (\<lambda>f t action gp param. score action),
      sample_max_vals = (\<lambda>gp t. ([], [], [])),
      sample_max_vals_gumbel = (\<lambda>gp t. []),
      mcts_choose_trajectory = (\<lambda>gp pose aq f t param. ((None, NaN, [], []), None, None)),
      random = (\<lambda>n. 1 / 2)\<rparr>"

text \<open>Scenario A of the spec: the scores are 1, 3 and 3.\<close>

definition scenario_A :: env where
  "scenario_A =
     scenario_env (\<lambda>t. scenario_actions)
       (\<lambda>action. if action = [[5, 5], [6, 5]] then Num 1 else Num 3)"

text \<open>Scenario C of the spec: every score is not-a-number.\<close>

definition scenario_C :: env where
  "scenario_C = scenario_env (\<lambda>t. scenario_actions) (\<lambda>action. NaN)"

text \<open>
  Scenario B of the spec, shortened: candidates at iteration 0, none afterwards.
\<close>

definition scenario_B :: env where
  "scenario_B =
     scenario_env (\<lambda>t. if t = 0 then scenario_actions else [])
       (\<lambda>action. if action = [[5, 5], [6, 5]] then Num 1 else Num 3)"

text \<open>The robot that the constructor returns in these scenarios.\<close>

definition scenario_robot :: robot where
  "scenario_robot =
     \<lparr>ranges = (0, 10, 0, 10), dim = 2, loc = [5, 5, 0], time = 0, kernel = ''rbf'',
      GP = empty_belief, f_rew = ''mean'', aquisition_function = mean_UCB,
      nonmyopic = False, maxes = [], current_max = Num (- 1000),
      current_max_loc = [0, 0], max_locs = None, max_val = None, target = None,
      trajectory = [], dist = 0, rng_pos = 0, sampled = [], logged = [], metrics = [],
      exported = None\<rparr>"

text \<open>The robot of the scenarios when the reward is the expected improvement.\<close>

definition scenario_robot_ei :: robot where
  "scenario_robot_ei =
     scenario_robot\<lparr>f_rew := ''exp_improve'', aquisition_function := exp_improvement\<rparr>"

subsection \<open>The states a robot can be in\<close>

text \<open>
  A robot is constructed, and then its methods are called, by a client or by the
  planner, whose iterations are steps of their own.
\<close>

inductive reachable :: "env \<Rightarrow> robot \<Rightarrow> bool" for E :: env where
  constructed: "robot_init E kw = Inr r \<Longrightarrow> reachable E r"
| chosen: "reachable E r \<Longrightarrow> reachable E (snd (choose_trajectory E r t))"
| collected: "reachable E r \<Longrightarrow> reachable E (snd (collect_observations E r xobs))"
| predicted: "reachable E r \<Longrightarrow> reachable E (snd (predict_max E r))"
| iterated: "reachable E r \<Longrightarrow> reachable E (snd (planner_step E t r))"
| planned: "reachable E r \<Longrightarrow> reachable E (snd (planner E r T))"

section \<open>Properties\<close>

subsection \<open>Maxima and random choice\<close>

lemma set_nums: "set (nums vs) = {x. Num x \<in> set vs}"
  by (induction vs rule: nums.induct) auto

lemma nanmax_some:
  assumes "nums vs \<noteq> []"
  shows "nanmax vs = Inr (Num (Max (set (nums vs))))"
proof -
  from assms obtain y ys where ys: "nums vs = y # ys" by (cases "nums vs") auto
  have "fold max ys y = Max (set (y # ys))" by (rule Max.set_eq_fold[symmetric])
  moreover have "vs \<noteq> []" using assms by auto
  ultimately show ?thesis using ys by (simp add: nanmax_def)
qed

lemma nanmax_all_nan:
  assumes "vs \<noteq> []" "\<forall>v \<in> set vs. v = NaN"
  shows "nanmax vs = Inr NaN"
proof -
  have "set (nums vs) = {}" using assms by (auto simp: set_nums)
  then have "nums vs = []" by simp
  with assms show ?thesis by (simp add: nanmax_def)
qed

lemma random_choice_index:
  assumes "0 \<le> u" "u < 1" "seq \<noteq> []"
  shows "nat \<lfloor>u * real (length seq)\<rfloor> < length seq"
proof -
  have "u * real (length seq) < real (length seq)" using assms by simp
  then have "\<lfloor>u * real (length seq)\<rfloor> < int (length seq)" by linarith
  moreover have "0 \<le> \<lfloor>u * real (length seq)\<rfloor>" using assms by simp
  ultimately show ?thesis by (simp add: nat_less_iff)
qed

lemma random_choice_nonempty:
  assumes "0 \<le> u" "u < 1" "seq \<noteq> []"
  shows "random_choice u seq = Inr (seq ! nat \<lfloor>u * real (length seq)\<rfloor>)"
  using random_choice_index[OF assms] by (simp add: random_choice_def)

lemma random_choice_empty: "random_choice u [] = Inl IndexError"
  by (simp add: random_choice_def)

text \<open>
  The draw \<open>u\<close> selects position \<open>j\<close> of \<open>n\<close> exactly on the interval
  \<open>[j / n, (j + 1) / n)\<close>: the \<open>n\<close> positions get intervals of the same width.
\<close>

lemma random_choice_interval:
  assumes "0 \<le> u" "0 < n"
  shows "nat \<lfloor>u * real n\<rfloor> = j \<longleftrightarrow> real j / real n \<le> u \<and> u < (real j + 1) / real n"
proof -
  have nn: "0 \<le> u * real n" using assms by simp
  have "nat \<lfloor>u * real n\<rfloor> = j \<longleftrightarrow> \<lfloor>u * real n\<rfloor> = int j"
    using nn by (simp add: nat_eq_iff)
  also have "\<dots> \<longleftrightarrow> real j \<le> u * real n \<and> u * real n < real j + 1"
    by (simp add: floor_eq_iff)
  also have "\<dots> \<longleftrightarrow> real j / real n \<le> u \<and> u < (real j + 1) / real n"
    using assms by (simp add: pos_divide_le_eq pos_less_divide_eq)
  finally show ?thesis .
qed

subsection \<open>The selection of \<^verbatim>\<open>choose_trajectory\<close>\<close>

lemma best_keys_some:
  assumes "nums value \<noteq> []"
  shows "best_keys value =
           Inr (filter (\<lambda>key. value ! key = Num (Max (set (nums value)))) [0..<length value])"
proof -
  have ne: "value \<noteq> []" using assms by auto
  have eq: "py_eq v (Num m) \<longleftrightarrow> v = Num m" for v m by (cases v) auto
  show ?thesis using ne by (simp add: best_keys_def nanmax_some[OF assms] eq)
qed

lemma best_keys_some_nonempty:
  assumes "nums value \<noteq> []"
  shows "filter (\<lambda>key. value ! key = Num (Max (set (nums value)))) [0..<length value] \<noteq> []"
proof -
  let ?m = "Max (set (nums value))"
  have "set (nums value) \<noteq> {}" using assms by simp
  then have "?m \<in> set (nums value)" by (intro Max_in) simp_all
  then have "Num ?m \<in> set value" by (simp add: set_nums)
  then obtain k where "k < length value" "value ! k = Num ?m"
    by (auto simp: in_set_conv_nth)
  then have "k \<in> set (filter (\<lambda>key. value ! key = Num ?m) [0..<length value])" by simp
  then show ?thesis by (metis empty_iff empty_set)
qed

lemma best_keys_all_nan:
  assumes "value \<noteq> []" "\<forall>v \<in> set value. v = NaN"
  shows "best_keys value = Inr []"
proof -
  have "py_eq v NaN = False" for v by (cases v) auto
  then show ?thesis using assms by (simp add: best_keys_def nanmax_all_nan)
qed

text \<open>Building the parameter writes the three attributes of the sampled maxima only.\<close>

lemma reward_param_frame:
  "loc (snd (reward_param E r t)) = loc r"
  "rng_pos (snd (reward_param E r t)) = rng_pos r"
  "logged (snd (reward_param E r t)) = logged r"
  "maxes (snd (reward_param E r t)) = maxes r"
  "GP (snd (reward_param E r t)) = GP r"
  "aquisition_function (snd (reward_param E r t)) = aquisition_function r"
  by (auto simp: reward_param_def split: prod.splits)

text \<open>The \<^verbatim>\<open>try\<close> block succeeds when some score is a number.\<close>

lemma choose_trajectory_best:
  assumes acts: "actions = generate_trajectories E (loc r) t"
    and vals: "value = map (\<lambda>action. aquisition E (aquisition_function r) t action (GP r)
                                  (fst (reward_param E r t))) actions"
    and tied: "tied = filter (\<lambda>key. value ! key = Num (Max (set (nums value))))
                        [0..<length value]"
    and some: "nums value \<noteq> []"
    and u: "0 \<le> random E (rng_pos r)" "random E (rng_pos r) < 1"
  shows "choose_trajectory E r t =
           (Inr (actions ! (tied ! nat \<lfloor>random E (rng_pos r) * real (length tied)\<rfloor>),
                 value ! (tied ! nat \<lfloor>random E (rng_pos r) * real (length tied)\<rfloor>),
                 actions, value),
            (snd (reward_param E r t))\<lparr>rng_pos := rng_pos r + 1\<rparr>)"
proof -
  obtain param r1 where pr: "reward_param E r t = (param, r1)"
    by (cases "reward_param E r t")
  have fr: "loc r1 = loc r" "rng_pos r1 = rng_pos r" "GP r1 = GP r"
    "aquisition_function r1 = aquisition_function r"
    using reward_param_frame[of E r t] pr by simp_all
  have bk: "best_keys value = Inr tied"
    unfolding tied by (rule best_keys_some[OF some])
  have ne: "tied \<noteq> []"
    unfolding tied by (rule best_keys_some_nonempty[OF some])
  have rc: "random_choice (random E (rng_pos r)) tied
              = Inr (tied ! nat \<lfloor>random E (rng_pos r) * real (length tied)\<rfloor>)"
    by (rule random_choice_nonempty[OF u ne])
  have v: "map (\<lambda>action. aquisition E (aquisition_function r) t action (GP r) param)
             actions = value"
    using pr by (simp add: vals)
  show ?thesis
    unfolding choose_trajectory_def pr
    by (simp add: fr v bk rc Let_def acts[symmetric] del: One_nat_def)
qed

text \<open>
  When every score is not-a-number no key equals the maximum, \<^verbatim>\<open>random.choice\<close> raises on
  the empty list, and the handler picks among all keys with a second draw.
\<close>

lemma choose_trajectory_fallback:
  assumes acts: "actions = generate_trajectories E (loc r) t"
    and vals: "value = map (\<lambda>action. aquisition E (aquisition_function r) t action (GP r)
                                  (fst (reward_param E r t))) actions"
    and ne: "actions \<noteq> []"
    and nan: "\<forall>v \<in> set value. v = NaN"
    and u: "0 \<le> random E (rng_pos r + 1)" "random E (rng_pos r + 1) < 1"
  shows "choose_trajectory E r t =
           (Inr (actions ! nat \<lfloor>random E (rng_pos r + 1) * real (length actions)\<rfloor>,
                 value ! nat \<lfloor>random E (rng_pos r + 1) * real (length actions)\<rfloor>,
                 actions, value),
            (snd (reward_param E r t))\<lparr>rng_pos := rng_pos r + 2\<rparr>)"
proof -
  obtain param r1 where pr: "reward_param E r t = (param, r1)"
    by (cases "reward_param E r t")
  have fr: "loc r1 = loc r" "rng_pos r1 = rng_pos r" "GP r1 = GP r"
    "aquisition_function r1 = aquisition_function r"
    using reward_param_frame[of E r t] pr by simp_all
  have len: "length value = length actions" by (simp add: vals)
  have vne: "value \<noteq> []" using ne len by (metis length_0_conv)
  have bk: "best_keys value = Inr []" by (rule best_keys_all_nan[OF vne nan])
  have kne: "[0..<length actions] \<noteq> []" using ne by simp
  have rc: "random_choice (random E (rng_pos r + 1)) [0..<length actions]
              = Inr (nat \<lfloor>random E (rng_pos r + 1) * real (length actions)\<rfloor>)"
    using random_choice_nonempty[OF u kne] random_choice_index[OF u kne] by simp
  have v: "map (\<lambda>action. aquisition E (aquisition_function r) t action (GP r) param)
             actions = value"
    using pr by (simp add: vals)
  show ?thesis
    unfolding choose_trajectory_def pr
    using rc by (simp add: fr v bk random_choice_empty Let_def len acts[symmetric]
        del: One_nat_def)
qed

subsection \<open>Claims about the selection\<close>

text \<open>
  C3. In the direct mode, when the candidate set is not empty and some score is a
  number, \<^verbatim>\<open>choose_trajectory\<close> returns a candidate \<open>k\<close> whose score is the maximum of
  the scores that are numbers; a candidate with a smaller score is never returned. The
  keys \<open>tied\<close> are exactly the candidates at the maximum, and the draw \<open>u\<close> of
  \<^verbatim>\<open>random.choice\<close> selects the \<open>i\<close>-th of them exactly on the interval
  \<open>[i / n, (i + 1) / n)\<close>, \<open>n\<close> their number: the choice is uniform among them.
\<close>

theorem choose_trajectory_maximum:
  assumes acts: "actions = generate_trajectories E (loc r) t"
    and vals: "value = map (\<lambda>action. aquisition E (aquisition_function r) t action (GP r)
                                  (fst (reward_param E r t))) actions"
    and best: "best = Max (set (nums value))"
    and tied: "tied = filter (\<lambda>key. value ! key = Num best) [0..<length value]"
    and draw: "u = random E (rng_pos r)"
    and ne: "actions \<noteq> []" and some: "nums value \<noteq> []"
    and u: "0 \<le> u" "u < 1"
  shows "\<exists>k < length actions.
           fst (choose_trajectory E r t) = Inr (actions ! k, value ! k, actions, value)
         \<and> value ! k = Num best
         \<and> (\<forall>j < length value. \<forall>y. value ! j = Num y \<longrightarrow> y \<le> best)
         \<and> (\<forall>j < length value. \<forall>y. value ! j = Num y \<and> y < best \<longrightarrow> j \<noteq> k)
         \<and> tied \<noteq> []
         \<and> set tied = {j. j < length value \<and> value ! j = Num best}
         \<and> (\<forall>i < length tied.
               k = tied ! i \<longleftrightarrow>
                 real i / real (length tied) \<le> u \<and> u < (real i + 1) / real (length tied))"
proof -
  let ?i = "nat \<lfloor>u * real (length tied)\<rfloor>"
  let ?k = "tied ! ?i"
  have tied': "tied = filter (\<lambda>key. value ! key = Num (Max (set (nums value))))
                        [0..<length value]"
    by (simp add: tied best)
  have tne: "tied \<noteq> []"
    unfolding tied' by (rule best_keys_some_nonempty[OF some])
  have ilt: "?i < length tied" by (rule random_choice_index[OF u tne])
  then have kin: "?k \<in> set tied" by simp
  then have klt: "?k < length value" and kbest: "value ! ?k = Num best"
    by (simp_all add: tied)
  have len: "length value = length actions" by (simp add: vals)
  have u': "0 \<le> random E (rng_pos r)" "random E (rng_pos r) < 1"
    using u draw by simp_all
  have res: "fst (choose_trajectory E r t) = Inr (actions ! ?k, value ! ?k, actions, value)"
    unfolding draw by (simp add: choose_trajectory_best[OF acts vals tied' some u'])
  have ub: "y \<le> best" if "j < length value" "value ! j = Num y" for j y
  proof -
    have "Num y \<in> set value" using that by (metis nth_mem)
    then have "y \<in> set (nums value)" by (simp add: set_nums)
    then show ?thesis unfolding best by (simp add: Max_ge)
  qed
  have dom: "j \<noteq> ?k" if "value ! j = Num y" "y < best" for j y
    using that kbest by auto
  have dist: "distinct tied" by (simp add: tied)
  have unif: "?k = tied ! i \<longleftrightarrow>
      real i / real (length tied) \<le> u \<and> u < (real i + 1) / real (length tied)"
    if "i < length tied" for i
  proof -
    have "?k = tied ! i \<longleftrightarrow> ?i = i"
      using dist ilt that by (simp add: nth_eq_iff_index_eq)
    also have "\<dots> \<longleftrightarrow>
        real i / real (length tied) \<le> u \<and> u < (real i + 1) / real (length tied)"
      using u(1) tne by (intro random_choice_interval) simp_all
    finally show ?thesis .
  qed
  have st: "set tied = {j. j < length value \<and> value ! j = Num best}"
    by (auto simp: tied)
  show ?thesis
    using klt len res kbest ub dom tne st unif by (intro exI[of _ ?k]) (simp; blast)
qed

text \<open>
  In scenario A (scores 1, 3, 3) the tied keys are 1 and 2; the draw \<open>1 / 2\<close> lies in
  the interval of the second of them, and the third path is returned with score 3.
\<close>

theorem choose_trajectory_maximum_witness:
  "fst (choose_trajectory scenario_A scenario_robot 0)
     = Inr ([[5, 5], [4, 5]], Num 3, scenario_actions, [Num 1, Num 3, Num 3])"
proof -
  have acts: "scenario_actions = generate_trajectories scenario_A (loc scenario_robot) 0"
    by (simp add: scenario_A_def scenario_env_def)
  have vals: "[Num 1, Num 3, Num 3] =
      map (\<lambda>action. aquisition scenario_A (aquisition_function scenario_robot) 0 action
                      (GP scenario_robot) (fst (reward_param scenario_A scenario_robot 0)))
        scenario_actions"
    by (simp add: scenario_A_def scenario_env_def scenario_actions_def)
  have best: "(3::real) = Max (set (nums [Num 1, Num 3, Num 3]))" by simp
  have tied: "[1, 2] = filter (\<lambda>key. [Num 1, Num 3, Num 3] ! key = Num 3)
                         [0..<length [Num 1, Num 3, Num 3]]"
    by (simp add: upt_rec)
  have draw: "(1 / 2 :: real) = random scenario_A (rng_pos scenario_robot)"
    by (simp add: scenario_A_def scenario_env_def)
  have ne: "scenario_actions \<noteq> []" by (simp add: scenario_actions_def)
  have some: "nums [Num 1, Num 3, Num 3] \<noteq> []" by simp
  have u: "(0::real) \<le> 1 / 2" "(1 / 2 :: real) < 1" by simp_all
  from choose_trajectory_maximum[OF acts vals best tied draw ne some u]
  obtain k where k: "k < length scenario_actions"
    "fst (choose_trajectory scenario_A scenario_robot 0)
       = Inr (scenario_actions ! k, [Num 1, Num 3, Num 3] ! k, scenario_actions,
              [Num 1, Num 3, Num 3])"
    "\<forall>i<length [1::nat, 2]. k = [1, 2] ! i \<longleftrightarrow>
        real i / real (length [1::nat, 2]) \<le> 1 / 2
        \<and> 1 / 2 < (real i + 1) / real (length [1::nat, 2])"
    by blast
  from k(3) have "k = [1, 2] ! 1 \<longleftrightarrow>
      real 1 / real (length [1::nat, 2]) \<le> 1 / 2
      \<and> 1 / 2 < (real 1 + 1) / real (length [1::nat, 2])"
    by (metis One_nat_def length_Cons lessI list.size(3))
  then have "k = 2" by simp
  with k(2) show ?thesis by (simp add: scenario_actions_def)
qed

text \<open>
  C2, as the code has it. When the candidate set is not empty and every score is
  not-a-number, \<^verbatim>\<open>choose_trajectory\<close> returns a trajectory: candidate \<open>k\<close>, which the
  second draw \<open>u\<close> selects among all candidates, candidate \<open>j\<close> exactly on the interval
  \<open>[j / n, (j + 1) / n)\<close>. The fallback is the handler of the bare \<^verbatim>\<open>except\<close>; it
  emits no record of the logger.
\<close>

theorem choose_trajectory_all_nan:
  assumes acts: "actions = generate_trajectories E (loc r) t"
    and vals: "value = map (\<lambda>action. aquisition E (aquisition_function r) t action (GP r)
                                  (fst (reward_param E r t))) actions"
    and draw: "u = random E (rng_pos r + 1)"
    and ne: "actions \<noteq> []" and nan: "\<forall>v \<in> set value. v = NaN"
    and u: "0 \<le> u" "u < 1"
  shows "\<exists>k < length actions.
           fst (choose_trajectory E r t) = Inr (actions ! k, NaN, actions, value)
         \<and> (\<forall>j < length actions.
               k = j \<longleftrightarrow> real j / real (length actions) \<le> u
                               \<and> u < (real j + 1) / real (length actions))
         \<and> logged (snd (choose_trajectory E r t)) = logged r"
proof -
  let ?k = "nat \<lfloor>u * real (length actions)\<rfloor>"
  have u': "0 \<le> random E (rng_pos r + 1)" "random E (rng_pos r + 1) < 1"
    using u draw by simp_all
  note fb = choose_trajectory_fallback[OF acts vals ne nan u']
  have klt: "?k < length actions"
    using random_choice_index[OF u ne] .
  have len: "length value = length actions" by (simp add: vals)
  have vk: "value ! ?k = NaN" using nan klt len by (metis nth_mem)
  have res: "fst (choose_trajectory E r t) = Inr (actions ! ?k, NaN, actions, value)"
    using vk unfolding draw by (simp add: fb)
  have lg: "logged (snd (choose_trajectory E r t)) = logged r"
    by (simp add: fb reward_param_frame)
  have unif: "?k = j \<longleftrightarrow>
      real j / real (length actions) \<le> u \<and> u < (real j + 1) / real (length actions)" for j
    using u(1) ne by (intro random_choice_interval) simp_all
  show ?thesis using klt res lg unif by (intro exI[of _ ?k]) simp
qed

theorem choose_trajectory_all_nan_witness:
  "\<exists>k < 3. fst (choose_trajectory scenario_C scenario_robot 0)
      = Inr (scenario_actions ! k, NaN, scenario_actions, [NaN, NaN, NaN])"
proof -
  have acts: "scenario_actions = generate_trajectories scenario_C (loc scenario_robot) 0"
    by (simp add: scenario_C_def scenario_env_def)
  have vals: "[NaN, NaN, NaN] =
      map (\<lambda>action. aquisition scenario_C (aquisition_function scenario_robot) 0 action
                      (GP scenario_robot) (fst (reward_param scenario_C scenario_robot 0)))
        scenario_actions"
    by (simp add: scenario_C_def scenario_env_def scenario_actions_def)
  have draw: "(1 / 2 :: real) = random scenario_C (rng_pos scenario_robot + 1)"
    by (simp add: scenario_C_def scenario_env_def)
  have ne: "scenario_actions \<noteq> []" by (simp add: scenario_actions_def)
  have nan: "\<forall>v \<in> set [NaN, NaN, NaN]. v = NaN" by simp
  have u: "(0::real) \<le> 1 / 2" "(1 / 2 :: real) < 1" by simp_all
  have len: "length scenario_actions = 3" by (simp add: scenario_actions_def)
  from choose_trajectory_all_nan[OF acts vals draw ne nan u]
  show ?thesis unfolding len by blast
qed

text \<open>
  In scenario C the three scores are not-a-number: a trajectory is returned, and the
  logger holds no record afterwards, of warning level or any other.
\<close>

theorem choose_trajectory_all_nan_silent:
  "fst (choose_trajectory scenario_C scenario_robot 0)
      = Inr ([[5, 5], [5, 6]], NaN, scenario_actions, [NaN, NaN, NaN])
   \<and> logged (snd (choose_trajectory scenario_C scenario_robot 0)) = []"
  by (simp add: choose_trajectory_def reward_param_def scenario_C_def scenario_env_def
      scenario_robot_def scenario_actions_def best_keys_def nanmax_def random_choice_def)

subsection \<open>Claims about the constructor\<close>

lemma select_aquisition_cases:
  "select_aquisition ''mean'' = Inr mean_UCB"
  "select_aquisition ''info_gain'' = Inr info_gain"
  "select_aquisition ''mes'' = Inr mves"
  "select_aquisition ''exp_improve'' = Inr exp_improvement"
  "select_aquisition ''gumbel'' = Inr gumbel_mves"
  "f \<notin> {''mean'', ''info_gain'', ''mes'', ''exp_improve'', ''gumbel''}
     \<Longrightarrow> select_aquisition f = Inl ValueError"
  by (simp_all add: select_aquisition_def)

lemma robot_init_scenario:
  "robot_init (scenario_env gen score) scenario_kwargs = Inr scenario_robot"
  by (simp add: robot_init_def scenario_env_def scenario_kwargs_def scenario_robot_def
      resolve_kernel_def select_aquisition_def)

text \<open>
  C7. A reward tag outside the five supported ones makes the constructor fail: it
  returns an error and no robot, and the error is the \<^verbatim>\<open>ValueError\<close> of line 104 when
  the belief was constructed. With one of the five tags, and the belief constructed, the
  constructor returns a robot whose acquisition function is the one of the tag.
\<close>

theorem reward_tag_all_or_nothing:
  "(f_rew_kw kw \<notin> {''mean'', ''info_gain'', ''mes'', ''exp_improve'', ''gumbel''}
      \<longrightarrow> (\<exists>e. robot_init E kw = Inl e))
   \<and> (OnlineGPModel E kw = Inr gp0 \<longrightarrow>
        (f_rew_kw kw \<notin> {''mean'', ''info_gain'', ''mes'', ''exp_improve'', ''gumbel''}
           \<longrightarrow> robot_init E kw = Inl ValueError)
      \<and> (\<forall>tag aq.
            (tag, aq) \<in> {(''mean'', mean_UCB), (''info_gain'', info_gain), (''mes'', mves),
                         (''exp_improve'', exp_improvement), (''gumbel'', gumbel_mves)}
            \<and> f_rew_kw kw = tag
            \<longrightarrow> (\<exists>r. robot_init E kw = Inr r \<and> aquisition_function r = aq \<and> f_rew r = tag)))"
proof (intro conjI impI allI)
  assume bad: "f_rew_kw kw \<notin> {''mean'', ''info_gain'', ''mes'', ''exp_improve'', ''gumbel''}"
  show "\<exists>e. robot_init E kw = Inl e"
    using select_aquisition_cases(6)[OF bad]
    by (cases "OnlineGPModel E kw") (simp_all add: robot_init_def Let_def)
next
  assume "OnlineGPModel E kw = Inr gp0"
    and "f_rew_kw kw \<notin> {''mean'', ''info_gain'', ''mes'', ''exp_improve'', ''gumbel''}"
  then show "robot_init E kw = Inl ValueError"
    using select_aquisition_cases(6)[of "f_rew_kw kw"] by (simp add: robot_init_def Let_def)
next
  fix tag aq
  assume gp: "OnlineGPModel E kw = Inr gp0"
    and "(tag, aq) \<in> {(''mean'', mean_UCB), (''info_gain'', info_gain), (''mes'', mves),
                         (''exp_improve'', exp_improvement), (''gumbel'', gumbel_mves)}
            \<and> f_rew_kw kw = tag"
  then have "select_aquisition (f_rew_kw kw) = Inr aq" and "f_rew_kw kw = tag"
    using select_aquisition_cases(1-5) by auto
  with gp show "\<exists>r. robot_init E kw = Inr r \<and> aquisition_function r = aq \<and> f_rew r = tag"
    by (simp add: robot_init_def Let_def)
qed

text \<open>
  The tag \<^verbatim>\<open>hotspot_info\<close>, which the docstring of the constructor lists, is rejected;
  \<^verbatim>\<open>mean\<close> is accepted.
\<close>

theorem reward_tag_all_or_nothing_witness:
  "robot_init scenario_A (scenario_kwargs\<lparr>f_rew_kw := ''hotspot_info''\<rparr>) = Inl ValueError
   \<and> (\<exists>r. robot_init scenario_A scenario_kwargs = Inr r
           \<and> aquisition_function r = mean_UCB \<and> f_rew r = ''mean'')"
proof -
  have gp: "OnlineGPModel scenario_A kw = Inr empty_belief" for kw
    by (simp add: scenario_A_def scenario_env_def)
  have bad: "f_rew_kw (scenario_kwargs\<lparr>f_rew_kw := ''hotspot_info''\<rparr>)
               \<notin> {''mean'', ''info_gain'', ''mes'', ''exp_improve'', ''gumbel''}"
    by simp
  have good: "(''mean'', mean_UCB) \<in> {(''mean'', mean_UCB), (''info_gain'', info_gain),
        (''mes'', mves), (''exp_improve'', exp_improvement), (''gumbel'', gumbel_mves)}
      \<and> f_rew_kw scenario_kwargs = ''mean''"
    by (simp add: scenario_kwargs_def)
  from reward_tag_all_or_nothing[of "scenario_kwargs\<lparr>f_rew_kw := ''hotspot_info''\<rparr>"
      scenario_A empty_belief] gp bad
  have 1: "robot_init scenario_A (scenario_kwargs\<lparr>f_rew_kw := ''hotspot_info''\<rparr>) = Inl ValueError"
    by blast
  from reward_tag_all_or_nothing[of scenario_kwargs scenario_A empty_belief] gp good
  have 2: "\<exists>r. robot_init scenario_A scenario_kwargs = Inr r
           \<and> aquisition_function r = mean_UCB \<and> f_rew r = ''mean''"
    by blast
  from 1 2 show ?thesis by simp
qed





subsection \<open>What the methods leave unchanged\<close>

lemma reward_param_frame2:
  "dim (snd (reward_param E r t)) = dim r"
  "time (snd (reward_param E r t)) = time r"
  "trajectory (snd (reward_param E r t)) = trajectory r"
  "exported (snd (reward_param E r t)) = exported r"
  "metrics (snd (reward_param E r t)) = metrics r"
  "f_rew (snd (reward_param E r t)) = f_rew r"
  "current_max (snd (reward_param E r t)) = current_max r"
  "current_max_loc (snd (reward_param E r t)) = current_max_loc r"
  "nonmyopic (snd (reward_param E r t)) = nonmyopic r"
  "dist (snd (reward_param E r t)) = dist r"
  by (auto simp: reward_param_def split: prod.splits)

lemma choose_trajectory_state:
  "snd (choose_trajectory E r t) = (snd (reward_param E r t))\<lparr>rng_pos := rng_pos r + 1\<rparr>
   \<or> snd (choose_trajectory E r t) = (snd (reward_param E r t))\<lparr>rng_pos := rng_pos r + 2\<rparr>"
proof -
  obtain param r1 where pr: "reward_param E r t = (param, r1)"
    by (cases "reward_param E r t")
  have "rng_pos r1 = rng_pos r"
    using pr by (auto simp: reward_param_def split: prod.splits if_splits)
  then show ?thesis
    unfolding choose_trajectory_def pr
    by (simp add: Let_def split: sum.splits)
qed

lemma choose_trajectory_frame:
  "GP (snd (choose_trajectory E r t)) = GP r"
  "maxes (snd (choose_trajectory E r t)) = maxes r"
  "loc (snd (choose_trajectory E r t)) = loc r"
  "dim (snd (choose_trajectory E r t)) = dim r"
  "time (snd (choose_trajectory E r t)) = time r"
  "trajectory (snd (choose_trajectory E r t)) = trajectory r"
  "exported (snd (choose_trajectory E r t)) = exported r"
  "metrics (snd (choose_trajectory E r t)) = metrics r"
  "logged (snd (choose_trajectory E r t)) = logged r"
  "f_rew (snd (choose_trajectory E r t)) = f_rew r"
  "current_max (snd (choose_trajectory E r t)) = current_max r"
  "current_max_loc (snd (choose_trajectory E r t)) = current_max_loc r"
  "nonmyopic (snd (choose_trajectory E r t)) = nonmyopic r"
  "dist (snd (choose_trajectory E r t)) = dist r"
  using choose_trajectory_state[of E r t]
  by (auto simp: reward_param_frame reward_param_frame2)

lemma update_max_frame:
  "GP (snd (update_max r zxs)) = GP r"
  "maxes (snd (update_max r zxs)) = maxes r"
  "loc (snd (update_max r zxs)) = loc r"
  "trajectory (snd (update_max r zxs)) = trajectory r"
  "exported (snd (update_max r zxs)) = exported r"
  "f_rew (snd (update_max r zxs)) = f_rew r"
  "dim (snd (update_max r zxs)) = dim r"
  "sampled (snd (update_max r zxs)) = sampled r"
  by (induction r zxs rule: update_max.induct; simp)+

lemma collect_observations_frame:
  "maxes (snd (collect_observations E r xobs)) = maxes r"
  "loc (snd (collect_observations E r xobs)) = loc r"
  "trajectory (snd (collect_observations E r xobs)) = trajectory r"
  "exported (snd (collect_observations E r xobs)) = exported r"
  "f_rew (snd (collect_observations E r xobs)) = f_rew r"
  "dim (snd (collect_observations E r xobs)) = dim r"
  by (simp_all add: collect_observations_def Let_def update_max_frame)

lemma collect_observations_GP:
  "GP (snd (collect_observations E r xobs))
     = add_data (GP r) (butlast xobs) (measure_environment E (butlast xobs) (time r))"
  by (simp add: collect_observations_def Let_def update_max_frame)

lemma predict_max_state:
  "snd (predict_max E r) = r \<or>
   (\<exists>data. snd (predict_max E r) = r\<lparr>GP := (GP r)\<lparr>calls := calls (GP r) @ [Predict_value data]\<rparr>\<rparr>)"
  unfolding predict_max_def
  by (simp add: Let_def split: sum.splits) blast

lemma predict_max_frame:
  "maxes (snd (predict_max E r)) = maxes r"
  "loc (snd (predict_max E r)) = loc r"
  "trajectory (snd (predict_max E r)) = trajectory r"
  "exported (snd (predict_max E r)) = exported r"
  "f_rew (snd (predict_max E r)) = f_rew r"
  "dim (snd (predict_max E r)) = dim r"
  "xvals (GP (snd (predict_max E r))) = xvals (GP r)"
  "zvals (GP (snd (predict_max E r))) = zvals (GP r)"
  "metrics (snd (predict_max E r)) = metrics r"
  "nonmyopic (snd (predict_max E r)) = nonmyopic r"
  "logged (snd (predict_max E r)) = logged r"
  "time (snd (predict_max E r)) = time r"
  using predict_max_state[of E r] by auto

lemma select_trajectory_frame:
  "maxes (snd (select_trajectory E r t)) = maxes r"
  "loc (snd (select_trajectory E r t)) = loc r"
  "trajectory (snd (select_trajectory E r t)) = trajectory r"
  "exported (snd (select_trajectory E r t)) = exported r"
  "f_rew (snd (select_trajectory E r t)) = f_rew r"
  "dim (snd (select_trajectory E r t)) = dim r"
  "GP (snd (select_trajectory E r t)) = GP r"
  "metrics (snd (select_trajectory E r t)) = metrics r"
  "time (snd (select_trajectory E r t)) = time r"
  "logged (snd (select_trajectory E r t)) = logged r"
proof -
  obtain res r' where ct: "choose_trajectory E r t = (res, r')"
    by (cases "choose_trajectory E r t")
  have r': "r' = snd (choose_trajectory E r t)" using ct by simp
  note fr = choose_trajectory_frame[of E r t, folded r']
  show "maxes (snd (select_trajectory E r t)) = maxes r"
  "loc (snd (select_trajectory E r t)) = loc r"
  "trajectory (snd (select_trajectory E r t)) = trajectory r"
  "exported (snd (select_trajectory E r t)) = exported r"
  "f_rew (snd (select_trajectory E r t)) = f_rew r"
  "dim (snd (select_trajectory E r t)) = dim r"
  "GP (snd (select_trajectory E r t)) = GP r"
  "metrics (snd (select_trajectory E r t)) = metrics r"
  "time (snd (select_trajectory E r t)) = time r"
  "logged (snd (select_trajectory E r t)) = logged r"
    by (simp_all add: select_trajectory_def Let_def ct fr split: prod.splits sum.splits)
qed

lemma execute_trajectory_maxes:
  "maxes (snd (execute_trajectory E t r sp)) = maxes r"
proof (cases "observation_locations (dim r) t sp")
  case (Inl e)
  then show ?thesis by (simp add: execute_trajectory_def)
next
  case (Inr xlocs)
  obtain res rf where co: "collect_observations E r xlocs = (res, rf)"
    by (cases "collect_observations E r xlocs")
  have "maxes rf = maxes r" using collect_observations_frame(1)[of E r xlocs] co by simp
  then show ?thesis
    by (simp add: execute_trajectory_def Inr co Let_def split: option.splits)
qed

lemma planner_step_maxes:
  "maxes (snd (planner_step E t r)) = maxes r"
proof -
  define ra where "ra = r\<lparr>time := t, logged := logged r @ [(INFO, Current_location t (loc r))]\<rparr>"
  obtain pm rb where pm: "predict_max E ra = (pm, rb)" by (cases "predict_max E ra")
  have rb: "maxes rb = maxes r" using predict_max_frame(1)[of E ra] pm by (simp add: ra_def)
  show ?thesis
  proof (cases pm)
    case (Inl e)
    then show ?thesis by (simp add: planner_step_def ra_def[symmetric] pm rb)
  next
    case (Inr p)
    obtain pred_loc pred_val where p: "p = (pred_loc, pred_val)" by (cases p)
    define rc where "rc = rb\<lparr>logged := logged rb @ [(INFO, Predicted_max pred_loc pred_val)]\<rparr>"
    obtain sel rd where sel: "select_trajectory E rc t = (sel, rd)"
      by (cases "select_trajectory E rc t")
    have rd: "maxes rd = maxes r"
      using select_trajectory_frame(1)[of E rc t] sel rb by (simp add: rc_def)
    show ?thesis
      using rd
      by (simp add: planner_step_def ra_def[symmetric] pm Inr p rc_def[symmetric] sel
          execute_trajectory_maxes Let_def split: sum.splits prod.splits option.splits)
  qed
qed

subsection \<open>The grid and the maximum of \<^verbatim>\<open>predict_max\<close>\<close>

lemma length_linspace: "length (linspace a b n) = n"
  by (simp add: linspace_def)

lemma nth_linspace: "i < n \<Longrightarrow> linspace a b n ! i = a + real i * ((b - a) / real (n - 1))"
  by (simp add: linspace_def)

lemma length_meshgrid_points:
  "length (meshgrid_points xs ys) = length xs * length ys"
  by (induction ys) (simp_all add: meshgrid_points_def)

lemma nth_meshgrid_points:
  "i < length ys \<Longrightarrow> j < length xs \<Longrightarrow>
     meshgrid_points xs ys ! (i * length xs + j) = [xs ! j, ys ! i]"
proof (induction ys arbitrary: i)
  case Nil
  then show ?case by simp
next
  case (Cons y ys)
  have unfold: "meshgrid_points xs (y # ys) = map (\<lambda>x1. [x1, y]) xs @ meshgrid_points xs ys"
    by (simp add: meshgrid_points_def)
  show ?case
  proof (cases i)
    case 0
    then show ?thesis using Cons.prems by (simp add: unfold nth_append)
  next
    case (Suc i')
    then have "i' < length ys" using Cons.prems by simp
    from Cons.IH[OF this Cons.prems(2)]
    show ?thesis using Suc by (simp add: unfold nth_append)
  qed
qed

lemma fold_max_Max: "fold max xs (b::real) = Max (insert b (set xs))"
  using Max.set_eq_fold[of b xs] by simp

lemma fold_max_ge: "(b::real) \<le> fold max xs b"
  by (simp add: fold_max_Max)


lemma argmax_loop_num:
  assumes "NaN \<notin> set vs"
  shows "let k = argmax_loop (Num b) bi i vs; m = fold max (nums vs) b
         in (k = bi \<and> m = b \<or> i \<le> k \<and> k < i + length vs \<and> vs ! (k - i) = Num m \<and> b < m)"
  using assms
proof (induction vs arbitrary: b bi i)
  case Nil
  then show ?case by simp
next
  case (Cons v vs)
  then obtain x where v: "v = Num x" by (cases v) auto
  have nn: "NaN \<notin> set vs" using Cons.prems by simp
  show ?case
  proof (cases "x \<le> b")
    case True
    then have mx: "max x b = b" by simp
    from Cons.IH[OF nn, of b bi "Suc i"]
    show ?thesis using True by (auto simp: v mx Let_def Suc_diff_le)
  next
    case False
    then have mx: "max x b = x" by simp
    have ge: "x \<le> fold max (nums vs) x"
      by (simp add: fold_max_ge)
    from Cons.IH[OF nn, of x i "Suc i"]
    show ?thesis using False ge by (auto simp: v mx Let_def Suc_diff_le)
  qed
qed

lemma fold_np_maximum:
  "NaN \<notin> set vs \<Longrightarrow> fold (\<lambda>x m. np_maximum m x) vs (Num b) = Num (fold max (nums vs) b)"
proof (induction vs arbitrary: b)
  case Nil
  then show ?case by simp
next
  case (Cons v vs)
  then obtain x where v: "v = Num x" by (cases v) auto
  from Cons show ?case by (simp add: v max.commute)
qed

lemma np_max_num:
  assumes "NaN \<notin> set vs" "vs \<noteq> []"
  shows "np_max vs = Inr (Num (Max (set (nums vs))))"
proof -
  from assms obtain x rest where vs: "vs = Num x # rest"
    by (cases vs; cases "hd vs") auto
  then have "NaN \<notin> set rest" using assms by simp
  then show ?thesis by (simp add: np_max_def vs fold_np_maximum fold_max_Max)
qed

lemma np_argmax_num:
  assumes "NaN \<notin> set vs" "vs \<noteq> []"
  shows "\<exists>k < length vs. np_argmax vs = Inr k \<and> vs ! k = Num (Max (set (nums vs)))"
proof -
  from assms obtain x rest where vs: "vs = Num x # rest"
    by (cases vs; cases "hd vs") auto
  then have nn: "NaN \<notin> set rest" using assms by simp
  let ?k = "argmax_loop (Num x) 0 1 rest"
  have m: "fold max (nums rest) x = Max (set (nums vs))"
    by (simp add: vs fold_max_Max)
  from argmax_loop_num[OF nn, of x 0 1]
  have "?k = 0 \<and> fold max (nums rest) x = x
        \<or> 1 \<le> ?k \<and> ?k < 1 + length rest \<and> rest ! (?k - 1) = Num (fold max (nums rest) x)"
    by (auto simp: Let_def)
  then have "?k < length vs \<and> vs ! ?k = Num (Max (set (nums vs)))"
    unfolding m by (auto simp: vs nth_Cons')
  then show ?thesis by (auto simp: np_argmax_def vs)
qed

lemma prediction_grid_points:
  assumes d: "dim r = 2 \<or> dim r = 3" and rg: "ranges r = (a, b, c, d)"
  shows "\<exists>data. prediction_grid r = Inr data \<and> length data = 900
           \<and> (\<forall>i < 30. \<forall>j < 30.
                 data ! (i * 30 + j) =
                   [a + real j * ((b - a) / 29), c + real i * ((d - c) / 29)]
                   @ (if dim r = 3 then [real (time r)] else []))"
proof -
  let ?mesh = "meshgrid_points (linspace a b 30) (linspace c d 30)"
  have len: "length ?mesh = 900" by (simp add: length_meshgrid_points length_linspace)
  have pt: "?mesh ! (i * 30 + j) = [a + real j * ((b - a) / 29), c + real i * ((d - c) / 29)]"
    if "i < 30" "j < 30" for i j
    using nth_meshgrid_points[of i "linspace c d 30" j "linspace a b 30"] that
    by (simp add: length_linspace nth_linspace)
  show ?thesis
  proof (cases "dim r = 2")
    case True
    then have "prediction_grid r = Inr ?mesh" by (simp add: prediction_grid_def rg)
    then show ?thesis using len pt True by simp
  next
    case False
    then have d3: "dim r = 3" using d by simp
    then have pg: "prediction_grid r = Inr (map (\<lambda>p. p @ [real (time r)]) ?mesh)"
      by (simp add: prediction_grid_def rg)
    have "i * 30 + j < length ?mesh" if "i < 30" "j < 30" for i j :: nat
      using that len by simp
    then show ?thesis using len pt d3 by (simp add: pg)
  qed
qed

lemma predict_max_value:
  assumes obs: "xvals (GP r) \<noteq> None" and pg: "prediction_grid r = Inr data"
    and pv: "observations = fst (predict_value E (GP r) data)"
    and len: "length observations = length data" and ne: "data \<noteq> []"
    and nn: "NaN \<notin> set observations"
  shows "\<exists>k < length data.
           predict_max E r =
             (Inr (data ! k, Num (Max (set (nums observations)))),
              r\<lparr>GP := (GP r)\<lparr>calls := calls (GP r) @ [Predict_value data]\<rparr>\<rparr>)
           \<and> observations ! k = Num (Max (set (nums observations)))"
proof -
  have one: "observations \<noteq> []" using len ne by (metis length_0_conv)
  from np_argmax_num[OF nn one] obtain k where k: "k < length observations"
    "np_argmax observations = Inr k" "observations ! k = Num (Max (set (nums observations)))"
    by blast
  have "predict_max E r =
             (Inr (data ! k, Num (Max (set (nums observations)))),
              r\<lparr>GP := (GP r)\<lparr>calls := calls (GP r) @ [Predict_value data]\<rparr>\<rparr>)"
    using obs k(1) len
    by (auto simp: predict_max_def pg pv[symmetric] Let_def k(2) np_max_num[OF nn one])
  then show ?thesis using k len by auto
qed



subsection \<open>The history of maxima\<close>

lemma planner_loop_maxes:
  "maxes (snd (planner_loop E ts r)) = maxes r"
proof (induction ts arbitrary: r)
  case Nil
  then show ?case by simp
next
  case (Cons t ts)
  obtain res r' where st: "planner_step E t r = (res, r')" by (cases "planner_step E t r")
  have r': "maxes r' = maxes r" using planner_step_maxes[of E t r] st by simp
  show ?case
  proof (cases res)
    case (Inl e)
    then show ?thesis using r' by (simp add: st)
  next
    case (Inr fl)
    then show ?thesis using r' Cons.IH[of r'] by (cases fl) (simp_all add: st)
  qed
qed

lemma planner_maxes: "maxes (snd (planner E r T)) = maxes r"
proof -
  obtain res r' where pl: "planner_loop E [0..<T] (r\<lparr>trajectory := [], dist := 0\<rparr>) = (res, r')"
    by (cases "planner_loop E [0..<T] (r\<lparr>trajectory := [], dist := 0\<rparr>)")
  have "maxes r' = maxes r"
    using planner_loop_maxes[of E "[0..<T]" "r\<lparr>trajectory := [], dist := 0\<rparr>"] pl by simp
  then show ?thesis
    by (simp add: planner_def pl split: option.splits sum.splits)
qed

lemma robot_init_maxes: "robot_init E kw = Inr r \<Longrightarrow> maxes r = []"
  by (auto simp: robot_init_def Let_def split: sum.splits)

text \<open>
  C10. The list \<^verbatim>\<open>maxes\<close> is empty when the robot is constructed and no method
  writes it, so it is empty in every state the robot can be in; hence for the reward
  \<^verbatim>\<open>exp_improve\<close> the parameter that \<^verbatim>\<open>choose_trajectory\<close> builds is always the
  one-element list of the current maximum, and the branch that passes \<^verbatim>\<open>maxes\<close> on
  is never taken.
\<close>

theorem maxes_always_empty:
  assumes "reachable E r"
  shows "maxes r = []
       \<and> (f_rew r = ''exp_improve'' \<longrightarrow> fst (reward_param E r t) = PList [current_max r])"
proof -
  from assms have m: "maxes r = []"
  proof (induction rule: reachable.induct)
    case (constructed kw r)
    then show ?case by (rule robot_init_maxes)
  next
    case (chosen r t)
    then show ?case by (simp add: choose_trajectory_frame)
  next
    case (collected r xobs)
    then show ?case by (simp add: collect_observations_frame)
  next
    case (predicted r)
    then show ?case by (simp add: predict_max_frame)
  next
    case (iterated r t)
    then show ?case by (simp add: planner_step_maxes)
  next
    case (planned r T)
    then show ?case by (simp add: planner_maxes)
  qed
  then show ?thesis by (simp add: reward_param_def)
qed

theorem maxes_always_empty_witness:
  "maxes (snd (planner scenario_A scenario_robot_ei 3)) = []
   \<and> fst (reward_param scenario_A scenario_robot_ei 0) = PList [Num (- 1000)]"
proof -
  have init: "robot_init scenario_A (scenario_kwargs\<lparr>f_rew_kw := ''exp_improve''\<rparr>)
                = Inr scenario_robot_ei"
    by (simp add: robot_init_def scenario_A_def scenario_env_def scenario_kwargs_def
        scenario_robot_def scenario_robot_ei_def resolve_kernel_def select_aquisition_def)
  have r0: "reachable scenario_A scenario_robot_ei"
    by (rule reachable.constructed[OF init])
  have f: "f_rew scenario_robot_ei = ''exp_improve''"
    "current_max scenario_robot_ei = Num (- 1000)"
    by (simp_all add: scenario_robot_ei_def scenario_robot_def)
  from maxes_always_empty[OF reachable.planned[OF r0], of 3 0]
       maxes_always_empty[OF r0, of 0] f
  show ?thesis by simp
qed

subsection \<open>The dimension\<close>









subsection \<open>No candidates\<close>

lemma choose_trajectory_no_candidates:
  assumes "generate_trajectories E (loc r) t = []"
  shows "fst (choose_trajectory E r t) = Inl IndexError"
proof -
  obtain param r1 where pr: "reward_param E r t = (param, r1)"
    by (cases "reward_param E r t")
  have "loc r1 = loc r" using reward_param_frame(1)[of E r t] pr by simp
  then show ?thesis
    unfolding choose_trajectory_def pr
    using assms by (simp add: best_keys_def random_choice_empty Let_def)
qed

lemma planner_step_no_candidates:
  assumes direct: "\<not> nonmyopic r"
    and none: "generate_trajectories E (loc r) t = []"
    and pm: "fst (predict_max E (r\<lparr>time := t,
                   logged := logged r @ [(INFO, Current_location t (loc r))]\<rparr>)) = Inr p"
  shows "fst (planner_step E t r) = Inl IndexError
       \<and> metrics (snd (planner_step E t r)) = metrics r
       \<and> xvals (GP (snd (planner_step E t r))) = xvals (GP r)
       \<and> zvals (GP (snd (planner_step E t r))) = zvals (GP r)
       \<and> exported (snd (planner_step E t r)) = exported r"
proof -
  define ra where "ra = r\<lparr>time := t, logged := logged r @ [(INFO, Current_location t (loc r))]\<rparr>"
  obtain rb where pm': "predict_max E ra = (Inr p, rb)"
    using pm by (cases "predict_max E ra") (simp add: ra_def)
  obtain pred_loc pred_val where p: "p = (pred_loc, pred_val)" by (cases p)
  have rb: "loc rb = loc r" "\<not> nonmyopic rb" "metrics rb = metrics r"
    "xvals (GP rb) = xvals (GP r)" "zvals (GP rb) = zvals (GP r)" "exported rb = exported r"
    using predict_max_frame[of E ra] pm' direct by (simp_all add: ra_def)
  define rc where "rc = rb\<lparr>logged := logged rb @ [(INFO, Predicted_max pred_loc pred_val)]\<rparr>"
  have rc: "loc rc = loc r" "\<not> nonmyopic rc" "metrics rc = metrics r"
    "xvals (GP rc) = xvals (GP r)" "zvals (GP rc) = zvals (GP r)" "exported rc = exported r"
    using rb by (simp_all add: rc_def)
  obtain res rd where ct: "choose_trajectory E rc t = (res, rd)"
    by (cases "choose_trajectory E rc t")
  have "generate_trajectories E (loc rc) t = []" using none rc by simp
  from choose_trajectory_no_candidates[OF this] have res: "res = Inl IndexError"
    using ct by simp
  have rd: "metrics rd = metrics r" "GP rd = GP rc" "exported rd = exported r"
    using choose_trajectory_frame[of E rc t] ct rc by simp_all
  have sel: "select_trajectory E rc t = (Inl IndexError, rd)"
    using rc(2) by (simp add: select_trajectory_def ct res)
  have "planner_step E t r = (Inl IndexError, rd)"
    by (simp add: planner_step_def ra_def[symmetric] pm' p rc_def[symmetric] sel)
  then show ?thesis using rd rc by simp
qed

lemma predict_max_succeeds:
  assumes obs: "xvals (GP r) \<noteq> None" and d: "dim r = 2 \<or> dim r = 3"
    and len: "\<And>data. length (fst (predict_value E (GP r) data)) = length data"
    and nn: "\<And>data. NaN \<notin> set (fst (predict_value E (GP r) data))"
  shows "\<exists>p. fst (predict_max E r) = Inr p"
proof -
  obtain a b c e where rg: "ranges r = (a, b, c, e)" by (cases "ranges r") auto
  from prediction_grid_points[OF d rg] obtain data where
    data: "prediction_grid r = Inr data" "length data = 900" by blast
  have ne: "data \<noteq> []" using data(2) by auto
  from predict_max_value[OF obs data(1) refl len ne nn]
  show ?thesis by force
qed

text \<open>
  C1, at an input where the code departs from it. In scenario B the first iteration
  executes a trajectory and collects one observation; at the second iteration the
  generator returns no candidate. \<^verbatim>\<open>random.choice\<close> raises \<^verbatim>\<open>IndexError\<close> in the
  \<^verbatim>\<open>try\<close> block and again in the handler, and the planner ends with that exception:
  the belief holds the observation, the metrics of the first iteration are recorded, and
  nothing is exported.
\<close>

theorem no_candidates_raises:
  "fst (planner scenario_B scenario_robot 2) = Some IndexError
   \<and> zvals (GP (snd (planner scenario_B scenario_robot 2))) = Some [Num 5]
   \<and> map m_t (metrics (snd (planner scenario_B scenario_robot 2))) = [0]
   \<and> exported (snd (planner scenario_B scenario_robot 2)) = None"
proof -
  define r0 where "r0 = scenario_robot\<lparr>trajectory := [], dist := 0\<rparr>"
  obtain r1 where step0: "planner_step scenario_B 0 r0 = (Inr Continue, r1)"
    and r1: "\<not> nonmyopic r1" "xvals (GP r1) = Some [[5, 5]]" "zvals (GP r1) = Some [Num 5]"
      "dim r1 = 2" "map m_t (metrics r1) = [0]" "exported r1 = None"
    by (simp add: r0_def planner_step_def predict_max_def select_trajectory_def
        choose_trajectory_def reward_param_def best_keys_def nanmax_def random_choice_def
        execute_trajectory_def observation_locations_def column_def
        collect_observations_def add_data_def
        scenario_B_def scenario_env_def scenario_robot_def
        scenario_actions_def empty_belief_def Let_def)
  define ra where "ra = r1\<lparr>time := 1, logged := logged r1 @ [(INFO, Current_location 1 (loc r1))]\<rparr>"
  have "\<exists>p. fst (predict_max scenario_B ra) = Inr p"
    by (rule predict_max_succeeds)
       (auto simp: ra_def r1 scenario_B_def scenario_env_def)
  then obtain p where pm: "fst (predict_max scenario_B ra) = Inr p" ..
  have none: "generate_trajectories scenario_B (loc r1) 1 = []"
    by (simp add: scenario_B_def scenario_env_def)
  from planner_step_no_candidates[OF r1(1) none pm[unfolded ra_def]]
  obtain r2 where step1: "planner_step scenario_B 1 r1 = (Inl IndexError, r2)"
    and r2: "metrics r2 = metrics r1" "zvals (GP r2) = zvals (GP r1)" "exported r2 = exported r1"
    by (cases "planner_step scenario_B 1 r1") auto
  have ts: "[0..<2] = [0, 1::nat]" by (simp add: upt_rec)
  have "planner scenario_B scenario_robot 2 = (Some IndexError, r2)"
    using step1 by (simp add: planner_def r0_def[symmetric] ts step0)
  then show ?thesis using r1 r2 by simp
qed

subsection \<open>Collecting observations\<close>

text \<open>
  The value of the running maximum: each value that exceeds it replaces it, so it never
  decreases, and when every row has its two coordinates it ends as the largest of its
  start and the values.
\<close>

lemma update_max_monotone:
  assumes "current_max r = Num c"
  shows "\<exists>c'. current_max (snd (update_max r zxs)) = Num c' \<and> c \<le> c'"
  using assms
proof (induction r zxs arbitrary: c rule: update_max.induct)
  case (1 r)
  then show ?case by simp
next
  case (2 r z x rest)
  show ?case
  proof (cases "py_gt z (current_max r)")
    case False
    then show ?thesis using 2 by simp
  next
    case True
    then obtain y where z: "z = Num y" "c < y" using "2.prems" by (cases z) auto
    show ?thesis
    proof (cases "2 \<le> length x")
      case False
      then show ?thesis using True z by auto
    next
      case l: True
      from "2.IH"(1)[OF True l, of y] z obtain c' where
        "current_max (snd (update_max (r\<lparr>current_max := z, current_max_loc := [x ! 0, x ! 1]\<rparr>) rest)) = Num c'"
        "y \<le> c'" by auto
      then show ?thesis using True l z by auto
    qed
  qed
qed

lemma update_max_value:
  assumes "current_max r = Num c" "\<forall>zx \<in> set zxs. 2 \<le> length (snd zx)"
  shows "update_max r zxs =
           (None, snd (update_max r zxs))
       \<and> current_max (snd (update_max r zxs)) = Num (fold max (nums (map fst zxs)) c)"
  using assms
proof (induction r zxs arbitrary: c rule: update_max.induct)
  case (1 r)
  then show ?case by simp
next
  case (2 r z x rest)
  have l: "2 \<le> length x" using "2.prems" by simp
  have rest: "\<forall>zx \<in> set rest. 2 \<le> length (snd zx)" using "2.prems" by simp
  show ?case
  proof (cases "py_gt z (current_max r)")
    case False
    have "fold max (nums (map fst ((z, x) # rest))) c = fold max (nums (map fst rest)) c"
      using False "2.prems"(1) by (cases z) (auto simp: max_def)
    then show ?thesis using "2.IH"(2)[OF False "2.prems"(1) rest] False by simp
  next
    case True
    then obtain y where z: "z = Num y" "c < y" using "2.prems" by (cases z) auto
    have "fold max (nums (map fst ((z, x) # rest))) c = fold max (nums (map fst rest)) y"
      using z by (simp add: max_def)
    then show ?thesis
      using "2.IH"(1)[OF True l, of y] rest True l z by simp
  qed
qed

text \<open>
  C4, at an input where the code departs from it. The values are sampled at
  \<^verbatim>\<open>xobs[:-1,:]\<close> and paired with the rows of \<^verbatim>\<open>xobs[1:,:]\<close>. Along the path
  \<open>(5, 5), (6, 5), (7, 5)\<close>, with a sampler that returns the first coordinate, the
  values 5 and 6 are observed at \<open>(5, 5)\<close> and \<open>(6, 5)\<close>. The running maximum ends as
  6, which is right, with the location \<open>(7, 5)\<close>, where nothing was sampled: each value
  is stored with the waypoint after the one at which it was observed.
\<close>

theorem running_max_location_shifted:
  "current_max (snd (collect_observations scenario_A scenario_robot [[5, 5], [6, 5], [7, 5]]))
     = Num 6
   \<and> current_max_loc
       (snd (collect_observations scenario_A scenario_robot [[5, 5], [6, 5], [7, 5]]))
     = [7, 5]
   \<and> xvals (GP (snd (collect_observations scenario_A scenario_robot [[5, 5], [6, 5], [7, 5]])))
     = Some [[5, 5], [6, 5]]
   \<and> zvals (GP (snd (collect_observations scenario_A scenario_robot [[5, 5], [6, 5], [7, 5]])))
     = Some [Num 5, Num 6]"
  by (simp add: collect_observations_def add_data_def scenario_A_def scenario_env_def
      scenario_robot_def empty_belief_def Let_def)

text \<open>
  The robot is at \<open>(5, 5)\<close>, the first waypoint of the path. That waypoint is
  sampled, and the last one, \<open>(7, 5)\<close>, is not.
\<close>

theorem occupied_waypoint_sampled:
  "loc (scenario_robot\<lparr>loc := [5, 5]\<rparr>) = [5, 5]
   \<and> sampled (snd (collect_observations scenario_A (scenario_robot\<lparr>loc := [5, 5]\<rparr>)
                      [[5, 5], [6, 5], [7, 5]]))
     = [([[5, 5], [6, 5]], 0)]"
  by (simp add: collect_observations_def update_max_frame scenario_robot_def Let_def)

text \<open>
  C5, as the code has it. \<^verbatim>\<open>collect_observations\<close> calls the sampler once, on every
  waypoint but the last one of the path; when the sampler returns one value per location, these are one
  value less than the path has waypoints, they are added with their locations in one
  call of \<^verbatim>\<open>add_data\<close>, and the belief grows by that number and never shrinks.
\<close>

theorem collect_observations_batch:
  assumes z: "zobs = measure_environment E (butlast xobs) (time r)"
    and one: "length zobs = length (butlast xobs)"
  shows "sampled (snd (collect_observations E r xobs))
           = sampled r @ [(butlast xobs, time r)]
       \<and> calls (GP (snd (collect_observations E r xobs)))
           = calls (GP r) @ [Add_data (butlast xobs) zobs]
       \<and> length zobs = length xobs - 1
       \<and> (xobs \<noteq> [] \<longrightarrow> xobs = butlast xobs @ [last xobs])
       \<and> xvals (GP (snd (collect_observations E r xobs)))
           = Some ((case xvals (GP r) of None \<Rightarrow> [] | Some old \<Rightarrow> old) @ butlast xobs)
       \<and> zvals (GP (snd (collect_observations E r xobs)))
           = Some ((case zvals (GP r) of None \<Rightarrow> [] | Some old \<Rightarrow> old) @ zobs)
       \<and> belief_size (GP (snd (collect_observations E r xobs)))
           = belief_size (GP r) + (length xobs - 1)
       \<and> belief_size (GP r) \<le> belief_size (GP (snd (collect_observations E r xobs)))"
proof -
  have G: "GP (snd (collect_observations E r xobs)) = add_data (GP r) (butlast xobs) zobs"
    by (simp add: collect_observations_GP z)
  have S: "sampled (snd (collect_observations E r xobs))
             = sampled r @ [(butlast xobs, time r)]"
    by (simp add: collect_observations_def Let_def update_max_frame)
  have len: "length zobs = length xobs - 1" using one by simp
  show ?thesis
    unfolding G S
    by (auto simp: add_data_def belief_size_def len split: option.splits)
qed

text \<open>Three waypoints in the scenario: two observations in one batch.\<close>

theorem collect_observations_batch_witness:
  "sampled (snd (collect_observations scenario_A scenario_robot [[5, 5], [6, 5], [7, 5]]))
     = [([[5, 5], [6, 5]], 0)]
   \<and> belief_size (GP (snd (collect_observations scenario_A scenario_robot
                           [[5, 5], [6, 5], [7, 5]]))) = 2
   \<and> calls (GP (snd (collect_observations scenario_A scenario_robot
                           [[5, 5], [6, 5], [7, 5]])))
       = [Add_data [[5, 5], [6, 5]] [Num 5, Num 6]]"
proof -
  have z: "[Num 5, Num 6] = measure_environment scenario_A (butlast [[5, 5], [6, 5], [7, 5]])
                              (time scenario_robot)"
    by (simp add: scenario_A_def scenario_env_def)
  have one: "length [Num 5, Num 6] = length (butlast [[5::real, 5], [6, 5], [7, 5]])"
    by simp
  from collect_observations_batch[OF z one]
  show ?thesis by (simp add: scenario_robot_def empty_belief_def belief_size_def)
qed

end
